theory Spec2Isabelle
  imports Main "HOL-Library.Word"
begin

unbundle bit_operations_syntax

section \<open>The SSD1331 driver: data model\<close>

text \<open>
  The embedding follows \<^verbatim>\<open>Adafruit_SSD1331.cpp\<close>. The C++ types are read as on the 32-bit
  Arduino cores: \<^verbatim>\<open>int16_t\<close> and \<^verbatim>\<open>uint16_t\<close> are \<open>16 word\<close> (read with \<open>sint\<close>
  resp. \<open>unat\<close>), \<^verbatim>\<open>uint8_t\<close> is \<open>8 word\<close>, and \<^verbatim>\<open>int\<close> is wide enough for every sum,
  difference and product of two \<^verbatim>\<open>int16_t\<close> values, so arithmetic on promoted operands is
  arithmetic on \<open>int\<close>. Storing an \<^verbatim>\<open>int\<close> into an \<^verbatim>\<open>int16_t\<close> keeps the low 16 bits
  (\<open>word_of_int\<close>, or word addition, which is the same), and passing a value to
  \<^verbatim>\<open>spiWrite(uint8_t)\<close> keeps the low 8 bits (\<open>ucast\<close>).
\<close>

type_synonym int16_t = "16 word"
type_synonym uint16_t = "16 word"
type_synonym uint8_t = "8 word"
type_synonym unsigned_int = "32 word"

text \<open>
  The opcode macros \<^verbatim>\<open>SSD1331_CMD_*\<close> are defined in the header, which is not part of the
  source at hand; they stay symbolic. A byte on the wire is an opcode or a raw operand.
\<close>

datatype opcode =
    SSD1331_CMD_DRAWLINE
  | SSD1331_CMD_DRAWRECT
  | SSD1331_CMD_COPY
  | SSD1331_CMD_CLEAR
  | SSD1331_CMD_FILL
  | SSD1331_CMD_SETREMAP

datatype byte = Op opcode | Raw uint8_t

text \<open>
  What a call does to the transport, in order: the data/command line, the SPI session
  bracket, bytes written inside a command frame (\<open>spiWrite\<close>), bytes sent through the
  base class's \<open>sendCommand\<close>, and the blocking delay. The Arduino core declares
  \<^verbatim>\<open>delayMicroseconds(unsigned int us)\<close>: the event carries the time the call blocks,
  which is the \<^verbatim>\<open>int\<close> argument converted to \<^verbatim>\<open>unsigned int\<close> (modulo \<open>2 ^ 32\<close>).
\<close>

datatype event =
    SPI_DC_LOW
  | SPI_DC_HIGH
  | startWrite
  | endWrite
  | spiWrite byte
  | sendCommand byte
  | delayMicroseconds unsigned_int

text \<open>
  The device state: \<open>WIDTH\<close> and \<open>HEIGHT\<close> are the constant physical dimensions of the
  graphics base class, \<open>gfx_width\<close> and \<open>gfx_height\<close> its members \<^verbatim>\<open>_width\<close> and
  \<^verbatim>\<open>_height\<close>, and \<open>COLORORDER_RGB\<close> says whether the build defines
  \<^verbatim>\<open>SSD1331_COLORORDER_RGB\<close>.
\<close>

record driver =
  WIDTH :: int16_t
  HEIGHT :: int16_t
  gfx_width :: int16_t
  gfx_height :: int16_t
  rotation :: uint8_t
  COLORORDER_RGB :: bool

text \<open>
  Modelled from the spec: \<^verbatim>\<open>TFTWIDTH\<close> and \<^verbatim>\<open>TFTHEIGHT\<close> are macros of the missing
  header; the spec's panel is 96 x 64 (so is the source's comment "A full-screen fill is
  96 * 64 = 6144 pixels"). This is the driver as the constructor and \<^verbatim>\<open>begin\<close> leave it.
\<close>

definition panel96x64 :: driver where
  "panel96x64 =
    \<lparr>WIDTH = 96, HEIGHT = 64, gfx_width = 96, gfx_height = 64, rotation = 0,
     COLORORDER_RGB = False\<rparr>"

section \<open>Command encoder\<close>

definition spiWriteXY :: "driver \<Rightarrow> int16_t \<Rightarrow> int16_t \<Rightarrow> event list" where
  "spiWriteXY d x y =
    (let swap = (rotation d AND 0x01 \<noteq> 0) in
      [spiWrite (Raw (ucast (if swap then y else x))),
       spiWrite (Raw (ucast (if swap then x else y)))])"

text \<open>
  The parameter of \<^verbatim>\<open>spiWriteColor\<close> is an \<^verbatim>\<open>int16_t\<close>: the shifts act on the promoted,
  sign-extended \<^verbatim>\<open>int\<close>.
\<close>

definition spiWriteColor :: "int16_t \<Rightarrow> event list" where
  "spiWriteColor color =
    [spiWrite (Raw (word_of_int (drop_bit 10 (sint color) AND 0x3E))),
     spiWrite (Raw (word_of_int (drop_bit 5 (sint color) AND 0x3F))),
     spiWrite (Raw (word_of_int (push_bit 1 (sint color) AND 0x3E)))]"

section \<open>Rotation\<close>

definition SETREMAP_COLOR_BITS :: "driver \<Rightarrow> uint8_t" where
  "SETREMAP_COLOR_BITS d = (if COLORORDER_RGB d then 0x60 else 0x64)"

definition SETREMAP_ROTATION_0_BITS :: uint8_t where
  "SETREMAP_ROTATION_0_BITS = 0x12"

definition SETREMAP_ROTATION_1_BITS :: uint8_t where
  "SETREMAP_ROTATION_1_BITS = 0x03"

definition SETREMAP_ROTATION_2_BITS :: uint8_t where
  "SETREMAP_ROTATION_2_BITS = 0x00"

definition SETREMAP_ROTATION_3_BITS :: uint8_t where
  "SETREMAP_ROTATION_3_BITS = 0x11"

definition setRotation :: "driver \<Rightarrow> uint8_t \<Rightarrow> driver \<times> event list" where
  "setRotation d r =
    (let d1 = d\<lparr>rotation := r AND 0x03\<rparr>;
         d2 = (if rotation d1 AND 1 \<noteq> 0
               then d1\<lparr>gfx_width := HEIGHT d1, gfx_height := WIDTH d1\<rparr>
               else d1\<lparr>gfx_width := WIDTH d1, gfx_height := HEIGHT d1\<rparr>);
         remap_bits = SETREMAP_COLOR_BITS d2;
         remap_bits =
           (if rotation d2 = 0 then remap_bits OR SETREMAP_ROTATION_0_BITS
            else if rotation d2 = 1 then remap_bits OR SETREMAP_ROTATION_1_BITS
            else if rotation d2 = 2 then remap_bits OR SETREMAP_ROTATION_2_BITS
            else if rotation d2 = 3 then remap_bits OR SETREMAP_ROTATION_3_BITS
            else remap_bits)
     in (d2, [sendCommand (Op SSD1331_CMD_SETREMAP), sendCommand (Raw remap_bits)]))"

text \<open>A sequence of \<open>setRotation\<close> calls, threading the state and collecting the trace.\<close>

fun setRotations :: "driver \<Rightarrow> uint8_t list \<Rightarrow> driver \<times> event list" where
  "setRotations d [] = (d, [])"
| "setRotations d (r # rs) =
    (let (d1, t1) = setRotation d r; (d2, t2) = setRotations d1 rs in (d2, t1 @ t2))"

section \<open>Lines\<close>

definition writeLine ::
  "driver \<Rightarrow> int16_t \<Rightarrow> int16_t \<Rightarrow> int16_t \<Rightarrow> int16_t \<Rightarrow> uint16_t \<Rightarrow> event list" where
  "writeLine d x0 y0 x1 y1 color =
    (if sint x0 < 0 \<or> sint (gfx_width d) \<le> sint x0 \<or>
        sint x1 < 0 \<or> sint (gfx_width d) \<le> sint x1 \<or>
        sint y0 < 0 \<or> sint (gfx_height d) \<le> sint y0 \<or>
        sint y1 < 0 \<or> sint (gfx_height d) \<le> sint y1
     then []
     else [SPI_DC_LOW, spiWrite (Op SSD1331_CMD_DRAWLINE)] @
          spiWriteXY d x0 y0 @ spiWriteXY d x1 y1 @ spiWriteColor color @
          [SPI_DC_HIGH])"

definition drawLine ::
  "driver \<Rightarrow> int16_t \<Rightarrow> int16_t \<Rightarrow> int16_t \<Rightarrow> int16_t \<Rightarrow> uint16_t \<Rightarrow> event list" where
  "drawLine d x0 y0 x1 y1 color = [startWrite] @ writeLine d x0 y0 x1 y1 color @ [endWrite]"

definition writeFastVLine ::
  "driver \<Rightarrow> int16_t \<Rightarrow> int16_t \<Rightarrow> int16_t \<Rightarrow> uint16_t \<Rightarrow> event list" where
  "writeFastVLine d x y h color = writeLine d x y x (y + h) color"

definition writeFastHLine ::
  "driver \<Rightarrow> int16_t \<Rightarrow> int16_t \<Rightarrow> int16_t \<Rightarrow> uint16_t \<Rightarrow> event list" where
  "writeFastHLine d x y w color = writeLine d x y (x + w) y color"

section \<open>Rectangles\<close>

definition writeFillRect ::
  "driver \<Rightarrow> int16_t \<Rightarrow> int16_t \<Rightarrow> int16_t \<Rightarrow> int16_t \<Rightarrow> uint16_t \<Rightarrow> event list" where
  "writeFillRect d x y w h color =
    (let x1 = x + w;
         y1 = y + h
     in if sint x1 < 0 \<or> sint (gfx_width d) \<le> sint x \<or>
           sint y1 < 0 \<or> sint (gfx_height d) \<le> sint y
        then []
        else
          let x = (if sint x < 0 then 0 else x);
              x1 = (if sint (gfx_width d) < sint x1 then gfx_width d else x1);
              y = (if sint y < 0 then 0 else y);
              y1 = (if sint (gfx_height d) < sint y1 then gfx_height d else y1)
          in if sint x1 - 1 < sint x \<or> sint y1 - 1 < sint y
             then []
             else
               [SPI_DC_LOW] @
               (if color = 0
                then [spiWrite (Op SSD1331_CMD_CLEAR)] @
                     spiWriteXY d x y @ spiWriteXY d (x1 - 1) (y1 - 1)
                else if x = x1 \<or> y = y1
                then writeLine d x y x1 y1 color
                else [spiWrite (Op SSD1331_CMD_FILL), spiWrite (Raw 0x01),
                      spiWrite (Op SSD1331_CMD_DRAWRECT)] @
                     spiWriteXY d x y @ spiWriteXY d (x1 - 1) (y1 - 1) @
                     spiWriteColor color @ spiWriteColor color) @
               [SPI_DC_HIGH, delayMicroseconds (word_of_int (drop_bit 2 (sint w * sint h)))])"

definition fillRect ::
  "driver \<Rightarrow> int16_t \<Rightarrow> int16_t \<Rightarrow> int16_t \<Rightarrow> int16_t \<Rightarrow> uint16_t \<Rightarrow> event list" where
  "fillRect d x y w h color = [startWrite] @ writeFillRect d x y w h color @ [endWrite]"


section \<open>Block copy\<close>

text \<open>
  \<^verbatim>\<open>copyBits\<close> clips the x axis (source lines 490-501) and the y axis (lines 507-518)
  with the same statements; \<open>copyBits_clip\<close> is that block, for the axis whose bound is
  \<open>lim\<close>. \<^verbatim>\<open>min_x\<close>, \<^verbatim>\<open>max_x\<close> and \<^verbatim>\<open>clip\<close> are \<^verbatim>\<open>int\<close>; the compound
  assignments store back into \<^verbatim>\<open>int16_t\<close> variables.
\<close>

definition copyBits_clip ::
  "int16_t \<Rightarrow> int16_t \<Rightarrow> int16_t \<Rightarrow> int16_t \<Rightarrow> int16_t \<times> int16_t \<times> int16_t" where
  "copyBits_clip lim x dx w =
    (let min_x = min (sint x) (sint dx);
         max_x = max (sint x) (sint dx) + sint w;
         clip = - min_x;
         (x, dx, w) =
           (if clip > 0
            then (word_of_int (sint x + clip), word_of_int (sint dx + clip),
                  word_of_int (sint w - clip))
            else (x, dx, w));
         clip = max_x - sint lim;
         w = (if clip > 0 then word_of_int (sint w - clip) else w)
     in (x, dx, w))"

definition copyBits ::
  "driver \<Rightarrow> int16_t \<Rightarrow> int16_t \<Rightarrow> int16_t \<Rightarrow> int16_t \<Rightarrow> int16_t \<Rightarrow> int16_t \<Rightarrow> bool
    \<Rightarrow> event list" where
  "copyBits d x y w h dx dy invert =
    (let (x, dx, w) = copyBits_clip (gfx_width d) x dx w
     in if sint w \<le> 0 then []
        else
          let (y, dy, h) = copyBits_clip (gfx_height d) y dy h
          in if sint h \<le> 0 then []
             else
               [startWrite, SPI_DC_LOW,
                spiWrite (Op SSD1331_CMD_FILL), spiWrite (Raw (if invert then 0x10 else 0x00)),
                spiWrite (Op SSD1331_CMD_COPY)] @
               spiWriteXY d x y @ spiWriteXY d (x + w - 1) (y + h - 1) @
               spiWriteXY d dx dy @
               [SPI_DC_HIGH, endWrite, delayMicroseconds (word_of_int (drop_bit 2 (sint w * sint h)))])"

section \<open>Reading a trace\<close>

text \<open>The bytes of a trace, in the order they go out on the wire inside command frames.\<close>

fun bytes_of :: "event list \<Rightarrow> byte list" where
  "bytes_of [] = []"
| "bytes_of (spiWrite b # es) = b # bytes_of es"
| "bytes_of (sendCommand b # es) = b # bytes_of es"
| "bytes_of (e # es) = bytes_of es"

section \<open>Notions used to state the properties\<close>

text \<open>
  The clipping prologue of \<open>writeFillRect\<close> on its own (source lines 255-275): \<open>None\<close>
  where the function returns early, else the clipped \<^verbatim>\<open>x\<close>, \<^verbatim>\<open>y\<close>, \<^verbatim>\<open>x1\<close>, \<^verbatim>\<open>y1\<close>.
\<close>

definition fill_clip ::
  "driver \<Rightarrow> int16_t \<Rightarrow> int16_t \<Rightarrow> int16_t \<Rightarrow> int16_t
    \<Rightarrow> (int16_t \<times> int16_t \<times> int16_t \<times> int16_t) option" where
  "fill_clip d x y w h =
    (let x1 = x + w;
         y1 = y + h
     in if sint x1 < 0 \<or> sint (gfx_width d) \<le> sint x \<or>
           sint y1 < 0 \<or> sint (gfx_height d) \<le> sint y
        then None
        else
          let x = (if sint x < 0 then 0 else x);
              x1 = (if sint (gfx_width d) < sint x1 then gfx_width d else x1);
              y = (if sint y < 0 then 0 else y);
              y1 = (if sint (gfx_height d) < sint y1 then gfx_height d else y1)
          in if sint x1 - 1 < sint x \<or> sint y1 - 1 < sint y
             then None
             else Some (x, y, x1, y1))"

text \<open>
  The specification's intersection of a rectangle with the logical screen, computed over
  the integers: \<open>None\<close> when it is empty, else the inclusive corners
  \<open>(max x 0, max y 0)\<close> and \<open>(min (x + w) width - 1, min (y + h) height - 1)\<close>.
\<close>

definition spec_intersection ::
  "driver \<Rightarrow> int16_t \<Rightarrow> int16_t \<Rightarrow> int16_t \<Rightarrow> int16_t \<Rightarrow> (int \<times> int \<times> int \<times> int) option" where
  "spec_intersection d x y w h =
    (let ax = max (sint x) 0;
         ay = max (sint y) 0;
         bx = min (sint x + sint w) (sint (gfx_width d)) - 1;
         by = min (sint y + sint h) (sint (gfx_height d)) - 1
     in if ax \<le> bx \<and> ay \<le> by then Some (ax, ay, bx, by) else None)"

text \<open>A point lies inside the logical screen \<open>[0, _width) \<times> [0, _height)\<close>.\<close>

definition on_screen :: "driver \<Rightarrow> int16_t \<Rightarrow> int16_t \<Rightarrow> bool" where
  "on_screen d x y =
    (0 \<le> sint x \<and> sint x < sint (gfx_width d) \<and> 0 \<le> sint y \<and> sint y < sint (gfx_height d))"

text \<open>The blocking waits of a trace, in microseconds, in order.\<close>

fun delays_of :: "event list \<Rightarrow> unsigned_int list" where
  "delays_of [] = []"
| "delays_of (delayMicroseconds n # es) = n # delays_of es"
| "delays_of (e # es) = delays_of es"

text \<open>
  The colour bytes as the specification words them: each of \<open>color >> 10\<close>,
  \<open>color >> 5\<close> and \<open>color << 1\<close> "masked to 6 bits", that is, with the mask \<open>0x3F\<close>.
\<close>

definition spec_color_triple :: "uint16_t \<Rightarrow> uint8_t list" where
  "spec_color_triple color =
    [ucast (drop_bit 10 color AND 0x3F),
     ucast (drop_bit 5 color AND 0x3F),
     ucast (push_bit 1 color AND 0x3F)]"

text \<open>
  The invariant of the device state: the rotation is one of 0..3, and the logical
  dimensions are the physical ones, swapped exactly when the rotation is odd.
\<close>

definition rotation_inv :: "driver \<Rightarrow> bool" where
  "rotation_inv d =
    (unat (rotation d) < 4 \<and>
     (if odd (unat (rotation d))
      then gfx_width d = HEIGHT d \<and> gfx_height d = WIDTH d
      else gfx_width d = WIDTH d \<and> gfx_height d = HEIGHT d))"


section \<open>The clipping of a fill\<close>

lemma sint_add_exact:
  "- 32768 \<le> sint (x::16 word) + sint w \<Longrightarrow> sint x + sint w \<le> 32767 \<Longrightarrow> sint (x + w) = sint x + sint w"
  by (simp add: sint_word_ariths signed_take_bit_int_eq_self)

lemma fill_clip_Some_less:
  assumes "fill_clip d x y w h = Some (cx, cy, cx1, cy1)"
  shows "sint cx < sint cx1" "sint cy < sint cy1"
  using assms by (auto simp: fill_clip_def Let_def split: if_splits)

lemma writeFillRect_by_clip:
  "writeFillRect d x y w h color =
    (case fill_clip d x y w h of
       None \<Rightarrow> []
     | Some (cx, cy, cx1, cy1) \<Rightarrow>
         [SPI_DC_LOW] @
         (if color = 0
          then [spiWrite (Op SSD1331_CMD_CLEAR)] @
               spiWriteXY d cx cy @ spiWriteXY d (cx1 - 1) (cy1 - 1)
          else [spiWrite (Op SSD1331_CMD_FILL), spiWrite (Raw 0x01),
                spiWrite (Op SSD1331_CMD_DRAWRECT)] @
               spiWriteXY d cx cy @ spiWriteXY d (cx1 - 1) (cy1 - 1) @
               spiWriteColor color @ spiWriteColor color) @
         [SPI_DC_HIGH, delayMicroseconds (word_of_int (drop_bit 2 (sint w * sint h)))])"
proof (cases "fill_clip d x y w h")
  case None
  then show ?thesis
    by (auto simp: fill_clip_def writeFillRect_def Let_def split: if_splits)
next
  case (Some p)
  obtain cx cy cx1 cy1 where p: "p = (cx, cy, cx1, cy1)" by (cases p) auto
  from Some p have lt: "sint cx < sint cx1" "sint cy < sint cy1"
    by (auto dest: fill_clip_Some_less)
  then have ne: "cx \<noteq> cx1" "cy \<noteq> cy1" by auto
  from Some p ne show ?thesis
    by (auto simp: fill_clip_def writeFillRect_def Let_def split: if_splits)
qed

lemma fill_clip_exact:
  assumes "- 32768 \<le> sint x + sint w" "sint x + sint w \<le> 32767"
    and "- 32768 \<le> sint y + sint h" "sint y + sint h \<le> 32767"
  shows "fill_clip d x y w h =
    (let cx = max (sint x) 0; cy = max (sint y) 0;
         cx1 = min (sint x + sint w) (sint (gfx_width d));
         cy1 = min (sint y + sint h) (sint (gfx_height d))
     in if cx < cx1 \<and> cy < cy1
        then Some (word_of_int cx, word_of_int cy, word_of_int cx1, word_of_int cy1)
        else None)"
proof -
  have sx: "sint (x + w) = sint x + sint w" and sy: "sint (y + h) = sint y + sint h"
    using assms by (simp_all add: sint_add_exact)
  let ?X = "if sint x < 0 then 0 else x"
  let ?Y = "if sint y < 0 then 0 else y"
  let ?X1 = "if sint (gfx_width d) < sint x + sint w then gfx_width d else x + w"
  let ?Y1 = "if sint (gfx_height d) < sint y + sint h then gfx_height d else y + h"
  have eqs: "?X = word_of_int (max (sint x) 0)" "?Y = word_of_int (max (sint y) 0)"
    "?X1 = word_of_int (min (sint x + sint w) (sint (gfx_width d)))"
    "?Y1 = word_of_int (min (sint y + sint h) (sint (gfx_height d)))"
    by (simp_all add: min_def max_def)
  have sints: "sint ?X = max (sint x) 0" "sint ?Y = max (sint y) 0"
    "sint ?X1 = min (sint x + sint w) (sint (gfx_width d))"
    "sint ?Y1 = min (sint y + sint h) (sint (gfx_height d))"
    using sx sy by (simp_all add: min_def max_def)
  have "fill_clip d x y w h =
     (if sint x + sint w < 0 \<or> sint (gfx_width d) \<le> sint x \<or>
         sint y + sint h < 0 \<or> sint (gfx_height d) \<le> sint y
      then None
      else if sint ?X1 - 1 < sint ?X \<or> sint ?Y1 - 1 < sint ?Y then None
      else Some (?X, ?Y, ?X1, ?Y1))"
    by (simp add: fill_clip_def Let_def sx sy)
  also have "\<dots> =
     (if sint x + sint w < 0 \<or> sint (gfx_width d) \<le> sint x \<or>
         sint y + sint h < 0 \<or> sint (gfx_height d) \<le> sint y
      then None
      else if min (sint x + sint w) (sint (gfx_width d)) - 1 < max (sint x) 0 \<or>
              min (sint y + sint h) (sint (gfx_height d)) - 1 < max (sint y) 0 then None
      else Some (word_of_int (max (sint x) 0), word_of_int (max (sint y) 0),
                 word_of_int (min (sint x + sint w) (sint (gfx_width d))),
                 word_of_int (min (sint y + sint h) (sint (gfx_height d)))))"
    by (simp only: sints eqs[symmetric])
  also have "\<dots> =
    (let cx = max (sint x) 0; cy = max (sint y) 0;
         cx1 = min (sint x + sint w) (sint (gfx_width d));
         cy1 = min (sint y + sint h) (sint (gfx_height d))
     in if cx < cx1 \<and> cy < cy1
        then Some (word_of_int cx, word_of_int cy, word_of_int cx1, word_of_int cy1)
        else None)"
    unfolding Let_def by (simp add: min_def max_def)
  finally show ?thesis .
qed


section \<open>Filled rectangles and the screen\<close>

text \<open>
  C1 (as amended). Whenever the far corner \<open>(x + w, y + h)\<close> is representable as an
  \<^verbatim>\<open>int16_t\<close>, \<open>writeFillRect\<close> addresses exactly the intersection of the requested
  rectangle with \<open>[0, _width) \<times> [0, _height)\<close>: it emits nothing when the intersection is
  empty, and otherwise one command frame whose corner operands are
  \<open>(max x 0, max y 0)\<close> and \<open>(min (x + w) _width - 1, min (y + h) _height - 1)\<close>, written
  in the order \<open>spiWriteXY\<close> gives them for the current rotation (each operand goes out
  as its low 8 bits).
\<close>

theorem writeFillRect_intersection:
  assumes "- 32768 \<le> sint x + sint w" "sint x + sint w \<le> 32767"
    and "- 32768 \<le> sint y + sint h" "sint y + sint h \<le> 32767"
  shows "writeFillRect d x y w h color =
    (case spec_intersection d x y w h of
       None \<Rightarrow> []
     | Some (ax, ay, bx, by) \<Rightarrow>
         [SPI_DC_LOW] @
         (if color = 0
          then [spiWrite (Op SSD1331_CMD_CLEAR)] @
               spiWriteXY d (word_of_int ax) (word_of_int ay) @
               spiWriteXY d (word_of_int bx) (word_of_int by)
          else [spiWrite (Op SSD1331_CMD_FILL), spiWrite (Raw 0x01),
                spiWrite (Op SSD1331_CMD_DRAWRECT)] @
               spiWriteXY d (word_of_int ax) (word_of_int ay) @
               spiWriteXY d (word_of_int bx) (word_of_int by) @
               spiWriteColor color @ spiWriteColor color) @
         [SPI_DC_HIGH, delayMicroseconds (word_of_int (drop_bit 2 (sint w * sint h)))])"
proof (cases "spec_intersection d x y w h")
  case None
  then have "fill_clip d x y w h = None"
    unfolding fill_clip_exact [OF assms] spec_intersection_def Let_def
    by (simp split: if_splits)
  with None show ?thesis by (simp add: writeFillRect_by_clip)
next
  case (Some p)
  obtain ax ay bx "by" where p: "p = (ax, ay, bx, by)" by (cases p) auto
  from Some p have "fill_clip d x y w h =
      Some (word_of_int ax, word_of_int ay, word_of_int (bx + 1), word_of_int (by + 1))"
    unfolding fill_clip_exact [OF assms] spec_intersection_def Let_def
    by (auto split: if_splits)
  with Some p show ?thesis by (simp add: writeFillRect_by_clip)
qed

theorem writeFillRect_intersection_witness:
  "writeFillRect panel96x64 (- 5) 60 10 10 0x1234 =
     [SPI_DC_LOW, spiWrite (Op SSD1331_CMD_FILL), spiWrite (Raw 1),
      spiWrite (Op SSD1331_CMD_DRAWRECT),
      spiWrite (Raw 0), spiWrite (Raw 60), spiWrite (Raw 4), spiWrite (Raw 63)] @
     spiWriteColor 0x1234 @ spiWriteColor 0x1234 @
     [SPI_DC_HIGH, delayMicroseconds 25]"
  using writeFillRect_intersection [of "- 5" 10 60 10 panel96x64 "0x1234"]
  by (simp add: spec_intersection_def panel96x64_def spiWriteXY_def)

text \<open>
  Without the side condition the statement fails: the rectangle with \<open>x = 1\<close>,
  \<open>w = 32767\<close> meets the 96 x 64 screen in columns 1 to 95 of row 0, but \<open>x + w\<close>
  wraps to \<open>-32768\<close> in \<^verbatim>\<open>x1\<close> and the call returns at the first bail-out.
\<close>

theorem writeFillRect_intersection_counterexample:
  "spec_intersection panel96x64 1 0 32767 1 = Some (1, 0, 95, 0) \<and>
   writeFillRect panel96x64 1 0 32767 1 0x1234 = []"
  by (simp add: spec_intersection_def writeFillRect_def panel96x64_def)

section \<open>Traces\<close>

lemma bytes_of_append: "bytes_of (xs @ ys) = bytes_of xs @ bytes_of ys"
  by (induction xs rule: bytes_of.induct) simp_all

lemma delays_of_append: "delays_of (xs @ ys) = delays_of xs @ delays_of ys"
  by (induction xs rule: delays_of.induct) simp_all

lemma bytes_of_spiWriteXY:
  "bytes_of (spiWriteXY d x y) =
    (if rotation d AND 1 \<noteq> 0 then [Raw (ucast y), Raw (ucast x)] else [Raw (ucast x), Raw (ucast y)])"
  by (simp add: spiWriteXY_def)

lemma delays_of_spiWriteXY: "delays_of (spiWriteXY d x y) = []"
  by (simp add: spiWriteXY_def Let_def)

lemma delays_of_spiWriteColor: "delays_of (spiWriteColor c) = []"
  by (simp add: spiWriteColor_def)

lemma Op_notin_spiWriteXY: "Op c \<notin> set (bytes_of (spiWriteXY d x y))"
  by (simp add: spiWriteXY_def Let_def)

lemma Op_notin_spiWriteColor: "Op c \<notin> set (bytes_of (spiWriteColor k))"
  by (simp add: spiWriteColor_def)

section \<open>The clipping and the intersection\<close>

lemma fill_clip_of_intersection:
  assumes "- 32768 \<le> sint x + sint w" "sint x + sint w \<le> 32767"
    and "- 32768 \<le> sint y + sint h" "sint y + sint h \<le> 32767"
  shows "fill_clip d x y w h =
    (case spec_intersection d x y w h of
       None \<Rightarrow> None
     | Some (ax, ay, zx, zy) \<Rightarrow>
         Some (word_of_int ax, word_of_int ay, word_of_int (zx + 1), word_of_int (zy + 1)))"
  unfolding fill_clip_exact [OF assms] spec_intersection_def Let_def
  by (simp split: if_splits)

section \<open>Zero-colour fills\<close>

lemma zero_fill_never_fills:
  "Op SSD1331_CMD_FILL \<notin> set (bytes_of (writeFillRect d x y w h 0))"
  "Op SSD1331_CMD_DRAWRECT \<notin> set (bytes_of (writeFillRect d x y w h 0))"
  by (simp_all add: writeFillRect_by_clip bytes_of_append Op_notin_spiWriteXY
      split: option.split)

text \<open>
  C2 (as amended). Take a \<open>fillRect\<close>/\<open>writeFillRect\<close> call with colour 0 whose far
  corner \<open>(x + w, y + h)\<close> is representable as an \<^verbatim>\<open>int16_t\<close> and whose rectangle meets
  the screen, in the inclusive corners \<open>(ax, ay)\<close> and \<open>(zx, zy)\<close> of the specification's
  intersection. Its frame is the CLEAR opcode followed by the pairs \<open>(ax, ay)\<close> and
  \<open>(zx, zy)\<close>. And for every colour-0 call, whatever its rectangle, the fill-enable and
  draw-rectangle opcodes do not occur.
\<close>

theorem fill_zero_uses_clear:
  "(- 32768 \<le> sint x + sint w \<and> sint x + sint w \<le> 32767 \<and>
    - 32768 \<le> sint y + sint h \<and> sint y + sint h \<le> 32767 \<and>
    spec_intersection d x y w h = Some (ax, ay, zx, zy) \<longrightarrow>
      writeFillRect d x y w h 0 =
        [SPI_DC_LOW, spiWrite (Op SSD1331_CMD_CLEAR)] @
        spiWriteXY d (word_of_int ax) (word_of_int ay) @
        spiWriteXY d (word_of_int zx) (word_of_int zy) @
        [SPI_DC_HIGH, delayMicroseconds (word_of_int (drop_bit 2 (sint w * sint h)))] \<and>
      bytes_of (fillRect d x y w h 0) =
        Op SSD1331_CMD_CLEAR #
        bytes_of (spiWriteXY d (word_of_int ax) (word_of_int ay)) @
        bytes_of (spiWriteXY d (word_of_int zx) (word_of_int zy))) \<and>
   Op SSD1331_CMD_FILL \<notin> set (bytes_of (fillRect d x y w h 0)) \<and>
   Op SSD1331_CMD_DRAWRECT \<notin> set (bytes_of (fillRect d x y w h 0))"
proof -
  have frame: "writeFillRect d x y w h 0 =
        [SPI_DC_LOW, spiWrite (Op SSD1331_CMD_CLEAR)] @
        spiWriteXY d (word_of_int ax) (word_of_int ay) @
        spiWriteXY d (word_of_int zx) (word_of_int zy) @
        [SPI_DC_HIGH, delayMicroseconds (word_of_int (drop_bit 2 (sint w * sint h)))]"
    if nowrap: "- 32768 \<le> sint x + sint w" "sint x + sint w \<le> 32767"
      "- 32768 \<le> sint y + sint h" "sint y + sint h \<le> 32767"
      and meets: "spec_intersection d x y w h = Some (ax, ay, zx, zy)"
    using meets by (simp add: writeFillRect_by_clip fill_clip_of_intersection [OF nowrap])
  have bytes: "bytes_of (fillRect d x y w h 0) =
        Op SSD1331_CMD_CLEAR #
        bytes_of (spiWriteXY d (word_of_int ax) (word_of_int ay)) @
        bytes_of (spiWriteXY d (word_of_int zx) (word_of_int zy))"
    if nowrap: "- 32768 \<le> sint x + sint w" "sint x + sint w \<le> 32767"
      "- 32768 \<le> sint y + sint h" "sint y + sint h \<le> 32767"
      and meets: "spec_intersection d x y w h = Some (ax, ay, zx, zy)"
    by (simp add: fillRect_def frame [OF nowrap meets] bytes_of_append)
  have never: "Op SSD1331_CMD_FILL \<notin> set (bytes_of (fillRect d x y w h 0))"
    "Op SSD1331_CMD_DRAWRECT \<notin> set (bytes_of (fillRect d x y w h 0))"
    using zero_fill_never_fills [of d x y w h]
    by (simp_all add: fillRect_def bytes_of_append)
  from frame bytes never show ?thesis by blast
qed

theorem fill_zero_uses_clear_witness:
  "bytes_of (fillRect panel96x64 10 10 20 20 0) =
     [Op SSD1331_CMD_CLEAR, Raw 10, Raw 10, Raw 29, Raw 29] \<and>
   bytes_of (fillRect panel96x64 (- 5) 60 10 10 0) =
     [Op SSD1331_CMD_CLEAR, Raw 0, Raw 60, Raw 4, Raw 63]"
  using fill_zero_uses_clear
      [where d = panel96x64 and x = 10 and y = 10 and w = 20 and h = 20
         and ax = 10 and ay = 10 and zx = 29 and zy = 29]
    fill_zero_uses_clear
      [where d = panel96x64 and x = "- 5" and y = 60 and w = 10 and h = 10
         and ax = 0 and ay = 60 and zx = 4 and zy = 63]
  by (simp add: spec_intersection_def panel96x64_def spiWriteXY_def)

text \<open>
  Without the side condition the statement fails: the colour-0 rectangle with \<open>x = 1\<close>
  and \<open>w = 32767\<close> meets the 96 x 64 screen in columns 1 to 95 of row 0, yet \<open>x + w\<close>
  wraps and the call sends no byte at all.
\<close>

theorem fill_zero_uses_clear_counterexample:
  "spec_intersection panel96x64 1 0 32767 1 = Some (1, 0, 95, 0) \<and>
   bytes_of (fillRect panel96x64 1 0 32767 1 0) = []"
  by (simp add: spec_intersection_def fillRect_def writeFillRect_def panel96x64_def)

section \<open>Thin fills\<close>

text \<open>
  The line branch of \<open>writeFillRect\<close> tests \<^verbatim>\<open>x == x1 || y == y1\<close> on the exclusive far
  corner, after the function has returned for every rectangle with \<^verbatim>\<open>x1 - 1 < x\<close> or
  \<^verbatim>\<open>y1 - 1 < y\<close>: it is never taken, so no fill ever produces the line opcode.
\<close>

lemma writeFillRect_never_line:
  "Op SSD1331_CMD_DRAWLINE \<notin> set (bytes_of (writeFillRect d x y w h color))"
  by (simp add: writeFillRect_by_clip bytes_of_append Op_notin_spiWriteXY
      Op_notin_spiWriteColor split: option.split)

text \<open>
  C3. The specification says that a nonzero-colour fill that is one pixel high, such as
  \<open>fillRect(0, 0, 50, 1, 0x1234)\<close>, goes out as a line-draw frame. The code sends the
  fill-rectangle frame instead (fill-enable, draw-rectangle, both corners, the colour
  twice) and no DRAWLINE opcode.
\<close>

theorem thin_fill_is_not_a_line:
  "bytes_of (fillRect panel96x64 0 0 50 1 0x1234) =
    [Op SSD1331_CMD_FILL, Raw 1, Op SSD1331_CMD_DRAWRECT,
     Raw 0, Raw 0, Raw 49, Raw 0, Raw 4, Raw 17, Raw 40, Raw 4, Raw 17, Raw 40] \<and>
   Op SSD1331_CMD_DRAWLINE \<notin> set (bytes_of (fillRect panel96x64 0 0 50 1 0x1234))"
  by (simp add: fillRect_def writeFillRect_def panel96x64_def spiWriteXY_def spiWriteColor_def)

section \<open>The delay after a fill\<close>

lemma writeFillRect_bytes_empty:
  "bytes_of (writeFillRect d x y w h color) = [] \<longleftrightarrow> fill_clip d x y w h = None"
  by (simp add: writeFillRect_by_clip bytes_of_append split: option.split)

lemma delays_of_writeFillRect:
  "delays_of (writeFillRect d x y w h color) =
     (if fill_clip d x y w h = None then []
      else [word_of_int (drop_bit 2 (sint w * sint h))])"
  by (simp add: writeFillRect_by_clip delays_of_append delays_of_spiWriteXY
      delays_of_spiWriteColor split: option.split)

lemma writeFillRect_last:
  "fill_clip d x y w h \<noteq> None \<Longrightarrow>
    last (writeFillRect d x y w h color) =
      delayMicroseconds (word_of_int (drop_bit 2 (sint w * sint h)))"
  by (auto simp add: writeFillRect_by_clip)

lemma int16_product_bound: "sint (w::int16_t) * sint (h::int16_t) \<le> 1073741824"
proof -
  have a: "\<bar>sint w\<bar> \<le> 32768" using sint_ge [of w] sint_lt [of w] by simp
  have b: "\<bar>sint h\<bar> \<le> 32768" using sint_ge [of h] sint_lt [of h] by simp
  have "\<bar>sint w\<bar> * \<bar>sint h\<bar> \<le> 32768 * 32768"
    using a b by (intro mult_mono) simp_all
  then have "\<bar>sint w * sint h\<bar> \<le> 1073741824" by (simp add: abs_mult)
  then show ?thesis by simp
qed

lemma delay_unsigned:
  assumes "0 \<le> sint (w::int16_t) * sint (h::int16_t)"
  shows "uint (word_of_int (drop_bit 2 (sint w * sint h)) :: unsigned_int) =
    drop_bit 2 (sint w * sint h)"
proof -
  let ?v = "drop_bit 2 (sint w * sint h)"
  have lo: "0 \<le> ?v" using assms by (simp add: drop_bit_eq_div)
  have "?v \<le> sint w * sint h" using assms by (simp add: drop_bit_eq_div)
  with int16_product_bound [of w h] have hi: "?v < 2 ^ 32" by simp
  have "uint (word_of_int ?v :: unsigned_int) = take_bit 32 ?v"
    by (simp add: uint_word_of_int_eq)
  also have "\<dots> = ?v" using lo hi by (simp add: take_bit_int_eq_self)
  finally show ?thesis .
qed

lemma intersection_positive_extent:
  assumes "spec_intersection d x y w h \<noteq> None"
  shows "0 < sint w" "0 < sint h"
  using assms by (auto simp: spec_intersection_def Let_def split: if_splits)

text \<open>
  C9 (as amended). A \<open>writeFillRect\<close> call sends bytes exactly when its clipping does
  not return early, and then it ends with its only wait: \<open>(w * h) >> 2\<close> for the caller's
  \<open>w\<close> and \<open>h\<close> (not the clipped extent), converted to \<^verbatim>\<open>unsigned int\<close>. The time blocked
  is exactly \<open>(w * h) >> 2\<close> microseconds whenever \<open>w * h\<close> is not negative; that is so
  whenever the far corner \<open>(x + w, y + h)\<close> is representable as an \<^verbatim>\<open>int16_t\<close>, where the
  call sends bytes precisely if the rectangle meets the screen. A call that sends no
  byte has an empty trace and waits not at all. \<open>fillRect\<close> adds no wait of its own.
\<close>

theorem writeFillRect_delay:
  "delays_of (writeFillRect d x y w h color) =
     (if bytes_of (writeFillRect d x y w h color) = [] then []
      else [word_of_int (drop_bit 2 (sint w * sint h))]) \<and>
   (bytes_of (writeFillRect d x y w h color) = [] \<longleftrightarrow> fill_clip d x y w h = None) \<and>
   (bytes_of (writeFillRect d x y w h color) = [] \<longrightarrow> writeFillRect d x y w h color = []) \<and>
   (bytes_of (writeFillRect d x y w h color) \<noteq> [] \<longrightarrow>
      last (writeFillRect d x y w h color) =
        delayMicroseconds (word_of_int (drop_bit 2 (sint w * sint h)))) \<and>
   (bytes_of (writeFillRect d x y w h color) \<noteq> [] \<and> 0 \<le> sint w * sint h \<longrightarrow>
      map uint (delays_of (writeFillRect d x y w h color)) = [drop_bit 2 (sint w * sint h)]) \<and>
   (- 32768 \<le> sint x + sint w \<and> sint x + sint w \<le> 32767 \<and>
    - 32768 \<le> sint y + sint h \<and> sint y + sint h \<le> 32767 \<longrightarrow>
      (if spec_intersection d x y w h = None
       then writeFillRect d x y w h color = []
       else bytes_of (writeFillRect d x y w h color) \<noteq> [] \<and>
            map uint (delays_of (writeFillRect d x y w h color)) =
              [drop_bit 2 (sint w * sint h)])) \<and>
   delays_of (fillRect d x y w h color) = delays_of (writeFillRect d x y w h color)"
proof -
  note e = writeFillRect_bytes_empty [of d x y w h color]
  have a: "delays_of (writeFillRect d x y w h color) =
     (if bytes_of (writeFillRect d x y w h color) = [] then []
      else [word_of_int (drop_bit 2 (sint w * sint h))])"
    by (simp add: e delays_of_writeFillRect)
  have c: "writeFillRect d x y w h color = []"
    if "bytes_of (writeFillRect d x y w h color) = []"
  proof -
    from that e have "fill_clip d x y w h = None" by simp
    then show ?thesis by (simp add: writeFillRect_by_clip)
  qed
  have l: "last (writeFillRect d x y w h color) =
        delayMicroseconds (word_of_int (drop_bit 2 (sint w * sint h)))"
    if "bytes_of (writeFillRect d x y w h color) \<noteq> []"
    using that by (simp add: e writeFillRect_last)
  have u: "map uint (delays_of (writeFillRect d x y w h color)) =
      [drop_bit 2 (sint w * sint h)]"
    if "bytes_of (writeFillRect d x y w h color) \<noteq> []" "0 \<le> sint w * sint h"
    using that by (simp add: a delay_unsigned)
  have n: "if spec_intersection d x y w h = None
       then writeFillRect d x y w h color = []
       else bytes_of (writeFillRect d x y w h color) \<noteq> [] \<and>
            map uint (delays_of (writeFillRect d x y w h color)) =
              [drop_bit 2 (sint w * sint h)]"
    if nowrap: "- 32768 \<le> sint x + sint w" "sint x + sint w \<le> 32767"
      "- 32768 \<le> sint y + sint h" "sint y + sint h \<le> 32767"
  proof (cases "spec_intersection d x y w h")
    case None
    then show ?thesis
      by (simp add: writeFillRect_by_clip fill_clip_of_intersection [OF nowrap])
  next
    case (Some p)
    then have ne: "bytes_of (writeFillRect d x y w h color) \<noteq> []"
      by (simp add: e fill_clip_of_intersection [OF nowrap] split: prod.split)
    from Some have "spec_intersection d x y w h \<noteq> None" by simp
    then have "0 < sint w" "0 < sint h"
      by (rule intersection_positive_extent)+
    then have "0 \<le> sint w * sint h" by simp
    with ne Some show ?thesis by (simp add: u)
  qed
  have f: "delays_of (fillRect d x y w h color) = delays_of (writeFillRect d x y w h color)"
    by (simp add: fillRect_def delays_of_append)
  from a e c l u n f show ?thesis by blast
qed

theorem writeFillRect_delay_witness:
  "map uint (delays_of (fillRect panel96x64 0 0 96 64 0xF800)) = [1536] \<and>
   fillRect panel96x64 0 64 10 10 0xF800 = [startWrite, endWrite]"
  using writeFillRect_delay [of panel96x64 0 0 96 64 "0xF800"]
    writeFillRect_delay [of panel96x64 0 64 10 10 "0xF800"]
  by (simp add: panel96x64_def fillRect_def writeFillRect_def spiWriteXY_def
      spiWriteColor_def)

text \<open>
  A negative product is not the time blocked: with \<open>x = w = -32000\<close> the far corner
  wraps to 1536, the call fills columns 0 to 95 of row 0, and \<open>(w * h) >> 2 = -8000\<close>
  reaches \<^verbatim>\<open>delayMicroseconds\<close> as 4294959296.
\<close>

theorem writeFillRect_delay_counterexample:
  "bytes_of (writeFillRect panel96x64 (- 32000) 0 (- 32000) 1 0x1234) =
     [Op SSD1331_CMD_FILL, Raw 1, Op SSD1331_CMD_DRAWRECT,
      Raw 0, Raw 0, Raw 95, Raw 0, Raw 4, Raw 17, Raw 40, Raw 4, Raw 17, Raw 40] \<and>
   map uint (delays_of (writeFillRect panel96x64 (- 32000) 0 (- 32000) 1 0x1234)) =
     [4294959296] \<and>
   drop_bit 2 (sint (- 32000 :: int16_t) * sint (1 :: int16_t)) = - 8000"
  by (simp add: writeFillRect_def panel96x64_def spiWriteXY_def spiWriteColor_def)

section \<open>Properties of lines\<close>

text \<open>
  C4. \<open>writeLine\<close> (and so \<open>drawLine\<close>) is all or nothing: when either endpoint lies
  outside \<open>[0, _width) \<times> [0, _height)\<close> no byte goes out, and otherwise the frame is the
  DRAWLINE opcode, the two endpoint pairs and one colour triple. On the 96 x 64 panel
  \<open>drawLine(-1, 5, 10, 5, c)\<close> sends nothing.
\<close>

theorem writeLine_all_or_nothing:
  "writeLine d x0 y0 x1 y1 color =
     (if on_screen d x0 y0 \<and> on_screen d x1 y1
      then [SPI_DC_LOW, spiWrite (Op SSD1331_CMD_DRAWLINE)] @
           spiWriteXY d x0 y0 @ spiWriteXY d x1 y1 @ spiWriteColor color @ [SPI_DC_HIGH]
      else []) \<and>
   bytes_of (drawLine d x0 y0 x1 y1 color) =
     (if on_screen d x0 y0 \<and> on_screen d x1 y1
      then Op SSD1331_CMD_DRAWLINE #
           bytes_of (spiWriteXY d x0 y0) @ bytes_of (spiWriteXY d x1 y1) @
           bytes_of (spiWriteColor color)
      else [])"
  by (auto simp: writeLine_def drawLine_def on_screen_def bytes_of_append)

theorem writeLine_all_or_nothing_witness:
  "bytes_of (drawLine panel96x64 (- 1) 5 10 5 0x1234) = [] \<and>
   bytes_of (drawLine panel96x64 0 5 10 5 0x1234) =
     [Op SSD1331_CMD_DRAWLINE, Raw 0, Raw 5, Raw 10, Raw 5, Raw 4, Raw 17, Raw 40]"
  using writeLine_all_or_nothing [of panel96x64 "- 1" 5 10 5 "0x1234"]
    writeLine_all_or_nothing [of panel96x64 0 5 10 5 "0x1234"]
  by (simp add: on_screen_def panel96x64_def spiWriteXY_def spiWriteColor_def)

text \<open>
  C10. The fast lines hand \<open>(x + w, y)\<close> resp. \<open>(x, y + h)\<close> to \<open>writeLine\<close> as the second
  endpoint. A horizontal line with \<open>x + w = _width\<close>, or a vertical one with
  \<open>y + h = _height\<close>, therefore has an endpoint on the bound, which \<open>writeLine\<close>
  rejects: the call emits nothing.
\<close>

theorem fast_line_reaching_edge_is_noop:
  "writeFastHLine d x y w color = writeLine d x y (x + w) y color \<and>
   writeFastVLine d x y h color = writeLine d x y x (y + h) color \<and>
   (sint x + sint w = sint (gfx_width d) \<longrightarrow> writeFastHLine d x y w color = []) \<and>
   (sint y + sint h = sint (gfx_height d) \<longrightarrow> writeFastVLine d x y h color = [])"
proof -
  have a: "sint (x + w) = sint (gfx_width d)" if "sint x + sint w = sint (gfx_width d)"
    using that sint_ge [of "gfx_width d"] sint_lt [of "gfx_width d"]
    by (simp add: sint_add_exact)
  have b: "sint (y + h) = sint (gfx_height d)" if "sint y + sint h = sint (gfx_height d)"
    using that sint_ge [of "gfx_height d"] sint_lt [of "gfx_height d"]
    by (simp add: sint_add_exact)
  show ?thesis
    using a b by (simp add: writeFastHLine_def writeFastVLine_def writeLine_def)
qed

theorem fast_line_reaching_edge_is_noop_witness:
  "writeFastHLine panel96x64 0 5 96 0x1234 = [] \<and>
   writeFastVLine panel96x64 5 0 64 0x1234 = [] \<and>
   bytes_of (writeFastHLine panel96x64 0 5 95 0x1234) =
     [Op SSD1331_CMD_DRAWLINE, Raw 0, Raw 5, Raw 95, Raw 5, Raw 4, Raw 17, Raw 40]"
  using fast_line_reaching_edge_is_noop [of panel96x64 0 5 96 "0x1234" 0]
    fast_line_reaching_edge_is_noop [of panel96x64 5 0 0 "0x1234" 64]
    fast_line_reaching_edge_is_noop [of panel96x64 0 5 95 "0x1234" 0]
  by (simp add: panel96x64_def writeLine_def spiWriteXY_def spiWriteColor_def)

section \<open>The colour operand\<close>

lemma bit_index_cases:
  assumes "n < LENGTH(8)"
  obtains "n = 0" | "n = 1" | "n = 2" | "n = 3" | "n = 4" | "n = 5" | "n = 6" | "n = 7"
  using assms by simp arith

lemma bit_times_2:
  "bit (a * 2 :: 'a :: semiring_bits) n \<longleftrightarrow> bit a (n - 1) \<and> n \<noteq> 0 \<and> possible_bit TYPE('a) n"
  using bit_double_iff [of a n] by (auto simp add: mult.commute)

lemma not_bit_beyond:
  "\<not> bit (c::16 word) 16" "\<not> bit (c::16 word) 17"
  by (auto dest: bit_imp_le_length)

lemma red_byte:
  "(word_of_int (drop_bit 10 (sint (c::16 word)) AND 0x3E) :: 8 word) =
     ucast (drop_bit 10 c AND 0x3E)"
  by (rule bit_word_eqI, erule bit_index_cases)
    (simp_all add: bit_simps bit_sint_iff bit_times_2)

lemma green_byte:
  "(word_of_int (drop_bit 5 (sint (c::16 word)) AND 0x3F) :: 8 word) =
     ucast (drop_bit 5 c AND 0x3F)"
  by (rule bit_word_eqI, erule bit_index_cases)
    (simp_all add: bit_simps bit_sint_iff bit_times_2)

lemma blue_byte:
  "(word_of_int (push_bit 1 (sint (c::16 word)) AND 0x3E) :: 8 word) =
     ucast (push_bit 1 c AND 0x3E)"
  by (rule bit_word_eqI, erule bit_index_cases)
    (simp_all add: bit_simps bit_sint_iff bit_times_2)

lemma red_channel:
  "(ucast (drop_bit 10 (c::16 word) AND 0x3E) :: 8 word) = push_bit 1 (ucast (drop_bit 11 c))"
  by (rule bit_word_eqI, erule bit_index_cases)
    (simp_all add: bit_simps bit_times_2 not_bit_beyond)

lemma green_channel:
  "(ucast (drop_bit 5 (c::16 word) AND 0x3F) :: 8 word) = ucast (take_bit 6 (drop_bit 5 c))"
  by (rule bit_word_eqI, erule bit_index_cases)
    (simp_all add: bit_simps bit_times_2 not_bit_beyond)

lemma blue_channel:
  "(ucast (push_bit 1 (c::16 word) AND 0x3E) :: 8 word) = push_bit 1 (ucast (take_bit 5 c))"
  by (rule bit_word_eqI, erule bit_index_cases)
    (simp_all add: bit_simps bit_times_2 not_bit_beyond)

text \<open>
  C8 (as amended). For every packed 5-6-5 colour the operand is exactly three bytes:
  red is \<open>(color >> 10) & 0x3E\<close>, green is \<open>(color >> 5) & 0x3F\<close> and blue is
  \<open>(color << 1) & 0x3E\<close>, with the shifts read on the unsigned 16-bit value (the sign
  extension of the \<^verbatim>\<open>int16_t\<close> parameter is masked away). Equivalently: the five red
  bits shifted left by one, the six green bits, and the five blue bits shifted left by
  one. The red mask is \<open>0x3E\<close>, not the full six bits.
\<close>

theorem spiWriteColor_bytes:
  "spiWriteColor color =
     [spiWrite (Raw (ucast (drop_bit 10 color AND 0x3E))),
      spiWrite (Raw (ucast (drop_bit 5 color AND 0x3F))),
      spiWrite (Raw (ucast (push_bit 1 color AND 0x3E)))] \<and>
   spiWriteColor color =
     [spiWrite (Raw (push_bit 1 (ucast (drop_bit 11 color)))),
      spiWrite (Raw (ucast (take_bit 6 (drop_bit 5 color)))),
      spiWrite (Raw (push_bit 1 (ucast (take_bit 5 color))))]"
proof -
  have a: "spiWriteColor color =
     [spiWrite (Raw (ucast (drop_bit 10 color AND 0x3E))),
      spiWrite (Raw (ucast (drop_bit 5 color AND 0x3F))),
      spiWrite (Raw (ucast (push_bit 1 color AND 0x3E)))]"
    unfolding spiWriteColor_def red_byte green_byte blue_byte by (rule refl)
  have b: "spiWriteColor color =
     [spiWrite (Raw (push_bit 1 (ucast (drop_bit 11 color)))),
      spiWrite (Raw (ucast (take_bit 6 (drop_bit 5 color)))),
      spiWrite (Raw (push_bit 1 (ucast (take_bit 5 color))))]"
    unfolding a red_channel green_channel blue_channel by (rule refl)
  from a b show ?thesis by (rule conjI)
qed

theorem spiWriteColor_bytes_witness:
  "spiWriteColor 0x0400 = [spiWrite (Raw 0), spiWrite (Raw 32), spiWrite (Raw 0)] \<and>
   spiWriteColor 0xFFFF = [spiWrite (Raw 62), spiWrite (Raw 63), spiWrite (Raw 62)]"
  using spiWriteColor_bytes [of "0x0400"] spiWriteColor_bytes [of "0xFFFF"]
  by simp

text \<open>
  With all three masks \<open>0x3F\<close> the red byte would take the top green bit as its lowest
  bit: for the colour \<open>0x0400\<close> the code sends red 0, the six-bit mask gives 1.
\<close>

theorem spiWriteColor_bytes_counterexample:
  "spiWriteColor 0x0400 = [spiWrite (Raw 0), spiWrite (Raw 32), spiWrite (Raw 0)] \<and>
   map (\<lambda>b. spiWrite (Raw b)) (spec_color_triple 0x0400) =
     [spiWrite (Raw 1), spiWrite (Raw 32), spiWrite (Raw 0)]"
  by (simp add: spiWriteColor_def spec_color_triple_def)

section \<open>Properties of the rotation\<close>

lemma mask3_cases: "(r::8 word) AND 3 = 0 \<or> r AND 3 = 1 \<or> r AND 3 = 2 \<or> r AND 3 = 3"
proof -
  have "unat (r AND 3) \<le> unat (3 :: 8 word)"
    by (rule word_and_le1 [THEN word_le_nat_alt [THEN iffD1]])
  then have "unat (r AND 3) = 0 \<or> unat (r AND 3) = 1 \<or> unat (r AND 3) = 2 \<or> unat (r AND 3) = 3"
    by simp arith
  then show ?thesis
    by (simp add: word_unat_eq_iff)
qed


lemma mask3_odd: "(r AND 3) AND 1 \<noteq> 0 \<longleftrightarrow> odd (unat (r AND 3))" for r :: "8 word"
  using mask3_cases [of r] by (elim disjE) simp_all

lemma mask3_lt: "unat (r AND 3) < 4" for r :: "8 word"
  using mask3_cases [of r] by (elim disjE) simp_all

lemma setRotation_state:
  "fst (setRotation d r) =
     d\<lparr>rotation := r AND 0x03,
       gfx_width := (if odd (unat (r AND 0x03)) then HEIGHT d else WIDTH d),
       gfx_height := (if odd (unat (r AND 0x03)) then WIDTH d else HEIGHT d)\<rparr>"
  by (simp add: setRotation_def Let_def mask3_odd)

lemma setRotation_trace:
  "snd (setRotation d r) =
     [sendCommand (Op SSD1331_CMD_SETREMAP),
      sendCommand (Raw (SETREMAP_COLOR_BITS d OR
        [SETREMAP_ROTATION_0_BITS, SETREMAP_ROTATION_1_BITS,
         SETREMAP_ROTATION_2_BITS, SETREMAP_ROTATION_3_BITS] ! unat (r AND 0x03)))]"
  using mask3_cases [of r]
  by (elim disjE) (simp_all add: setRotation_def Let_def SETREMAP_COLOR_BITS_def)

lemma setRotation_inv: "rotation_inv (fst (setRotation d r))"
  by (simp add: setRotation_state rotation_inv_def mask3_lt)

lemma setRotations_inv: "rotation_inv d \<Longrightarrow> rotation_inv (fst (setRotations d rs))"
proof (induction rs arbitrary: d)
  case Nil
  then show ?case by simp
next
  case (Cons r rs)
  have "rotation_inv (fst (setRotation d r))" by (rule setRotation_inv)
  then have "rotation_inv (fst (setRotations (fst (setRotation d r)) rs))"
    by (rule Cons.IH)
  then show ?case by (simp add: split_beta Let_def)
qed

text \<open>
  C7. \<open>setRotation r\<close> stores \<open>r & 3\<close> and sets both logical dimensions in the same
  call: \<open>(HEIGHT, WIDTH)\<close> when the masked rotation is odd, \<open>(WIDTH, HEIGHT)\<close> when it is
  even. It sends the set-remap opcode followed by the colour-order bits ORed with the
  bit pattern of that rotation. The invariant holds after every call, hence after every
  non-empty sequence of calls, and is kept by any sequence that starts in it.
\<close>

theorem setRotation_recomputes:
  "fst (setRotation d r) =
     d\<lparr>rotation := r AND 0x03,
       gfx_width := (if odd (unat (r AND 0x03)) then HEIGHT d else WIDTH d),
       gfx_height := (if odd (unat (r AND 0x03)) then WIDTH d else HEIGHT d)\<rparr> \<and>
   snd (setRotation d r) =
     [sendCommand (Op SSD1331_CMD_SETREMAP),
      sendCommand (Raw (SETREMAP_COLOR_BITS d OR
        [SETREMAP_ROTATION_0_BITS, SETREMAP_ROTATION_1_BITS,
         SETREMAP_ROTATION_2_BITS, SETREMAP_ROTATION_3_BITS] ! unat (r AND 0x03)))] \<and>
   rotation_inv (fst (setRotation d r)) \<and>
   (rs \<noteq> [] \<longrightarrow> rotation_inv (fst (setRotations d rs))) \<and>
   (rotation_inv d \<longrightarrow> rotation_inv (fst (setRotations d rs)))"
proof -
  have "rotation_inv (fst (setRotations d rs))" if "rs \<noteq> []"
  proof (cases rs)
    case Nil
    with that show ?thesis by simp
  next
    case (Cons r' rs')
    have "rotation_inv (fst (setRotations (fst (setRotation d r')) rs'))"
      by (rule setRotations_inv [OF setRotation_inv])
    with Cons show ?thesis by (simp add: split_beta Let_def)
  qed
  then show ?thesis
    using setRotation_state [of d r] setRotation_trace [of d r] setRotation_inv [of d r]
      setRotations_inv [of d rs]
    by blast
qed

theorem setRotation_recomputes_witness:
  "setRotation panel96x64 5 =
     (\<lparr>WIDTH = 96, HEIGHT = 64, gfx_width = 64, gfx_height = 96, rotation = 1,
       COLORORDER_RGB = False\<rparr>,
      [sendCommand (Op SSD1331_CMD_SETREMAP), sendCommand (Raw 0x67)]) \<and>
   rotation_inv (fst (setRotations panel96x64 [5, 2, 7]))"
  using setRotation_recomputes [of panel96x64 5 "[5, 2, 7]"]
  by (simp add: prod_eq_iff panel96x64_def SETREMAP_COLOR_BITS_def SETREMAP_ROTATION_1_BITS_def)

section \<open>Unfilled rectangles\<close>







section \<open>Properties of the block copy\<close>

lemma sint_of_int16:
  assumes "- 32768 \<le> k" "k \<le> 32767"
  shows "sint (word_of_int k :: 16 word) = k"
proof -
  have "sint (word_of_int k :: 16 word) = signed_take_bit 15 k"
    by (simp add: sint_sbintrunc')
  also have "\<dots> = k"
    using assms by (intro signed_take_bit_int_eq_self) simp_all
  finally show ?thesis .
qed

text \<open>
  As 16-bit values the clipped origins and extent are always the images of the integer
  results: the intermediate store into \<^verbatim>\<open>w\<close> may wrap, the final one sees the same low
  16 bits.
\<close>

lemma copyBits_clip_exact:
  "copyBits_clip lim x dx w =
      (word_of_int (sint x + max 0 (- min (sint x) (sint dx))),
       word_of_int (sint dx + max 0 (- min (sint x) (sint dx))),
       word_of_int (sint w - max 0 (- min (sint x) (sint dx))
                    - max 0 (max (sint x) (sint dx) + sint w - sint lim)))"
proof -
  define s where "s = - min (sint x) (sint dx)"
  define m where "m = max (sint x) (sint dx) + sint w - sint lim"
  have "copyBits_clip lim x dx w =
      (if 0 < s
       then (word_of_int (sint x + s), word_of_int (sint dx + s),
             if 0 < m then word_of_int (sint (word_of_int (sint w - s) :: 16 word) - m)
             else word_of_int (sint w - s))
       else (x, dx, if 0 < m then word_of_int (sint w - m) else w))"
    by (simp add: copyBits_clip_def Let_def s_def m_def)
  also have "\<dots> =
      (word_of_int (sint x + max 0 s), word_of_int (sint dx + max 0 s),
       word_of_int (sint w - max 0 s - max 0 m))"
    by (simp add: max_def)
  finally show ?thesis unfolding s_def m_def .
qed

lemma copyBits_extent_upper:
  "c \<le> (32767::int) \<Longrightarrow> c - max 0 p - max 0 q \<le> 32767"
  by arith

lemma copyBits_axis_bounds:
  assumes "0 < c - max 0 (- min a b) - max 0 (max a b + c - (l::int))"
  shows "0 \<le> a + max 0 (- min a b)"
    and "a + max 0 (- min a b) + (c - max 0 (- min a b) - max 0 (max a b + c - l)) \<le> l"
    and "0 \<le> b + max 0 (- min a b)"
    and "b + max 0 (- min a b) + (c - max 0 (- min a b) - max 0 (max a b + c - l)) \<le> l"
  using assms by arith+

lemma on_screen_of_int:
  assumes "0 \<le> a" "a < sint (gfx_width d)" "0 \<le> b" "b < sint (gfx_height d)"
  shows "on_screen d (word_of_int a) (word_of_int b)"
proof -
  have "a \<le> 32767" using assms(2) sint_lt [of "gfx_width d"] by simp
  with assms(1) have a: "sint (word_of_int a :: 16 word) = a"
    by (intro sint_of_int16) simp_all
  have "b \<le> 32767" using assms(4) sint_lt [of "gfx_height d"] by simp
  with assms(3) have b: "sint (word_of_int b :: 16 word) = b"
    by (intro sint_of_int16) simp_all
  show ?thesis using assms by (simp add: on_screen_def a b)
qed

text \<open>
  C5 (as amended). Let \<open>sx\<close> be the amount by which the smaller of \<open>x\<close> and \<open>dx\<close> is
  negative, \<open>w'\<close> the extent \<open>w\<close> less \<open>sx\<close> and less the amount by which the larger origin
  plus \<open>w\<close> exceeds \<open>_width\<close>, and \<open>sy\<close>, \<open>h'\<close> the same on the y axis, all over the
  integers. Provided \<open>w'\<close> and \<open>h'\<close> are not below \<open>-32768\<close> (the stores into the
  \<^verbatim>\<open>int16_t\<close> variables \<^verbatim>\<open>w\<close> and \<^verbatim>\<open>h\<close> do not wrap), \<open>copyBits\<close> emits nothing when
  \<open>w'\<close> or \<open>h'\<close> is not positive, and otherwise one frame that addresses the source
  rectangle at \<open>(x + sx, y + sy)\<close> with extent \<open>w' \<times> h'\<close> and the destination origin
  \<open>(dx + sx, dy + sy)\<close>. Then both the source and the destination rectangle lie within
  \<open>[0, _width) \<times> [0, _height)\<close>, and every coordinate sent is on screen, so none is
  negative. \<open>copyBits(0, 0, 96, 64, 0, -8, false)\<close> on the 96 x 64 panel copies rows
  8..63 to row 0.
\<close>

theorem copyBits_within_bounds:
  assumes "- 32768 \<le> sint w - max 0 (- min (sint x) (sint dx))
             - max 0 (max (sint x) (sint dx) + sint w - sint (gfx_width d))"
    and "- 32768 \<le> sint h - max 0 (- min (sint y) (sint dy))
             - max 0 (max (sint y) (sint dy) + sint h - sint (gfx_height d))"
  shows
    "let sx = max 0 (- min (sint x) (sint dx));
         w' = sint w - sx - max 0 (max (sint x) (sint dx) + sint w - sint (gfx_width d));
         sy = max 0 (- min (sint y) (sint dy));
         h' = sint h - sy - max 0 (max (sint y) (sint dy) + sint h - sint (gfx_height d))
     in copyBits d x y w h dx dy invert =
          (if 0 < w' \<and> 0 < h'
           then [startWrite, SPI_DC_LOW,
                 spiWrite (Op SSD1331_CMD_FILL), spiWrite (Raw (if invert then 0x10 else 0x00)),
                 spiWrite (Op SSD1331_CMD_COPY)] @
                spiWriteXY d (word_of_int (sint x + sx)) (word_of_int (sint y + sy)) @
                spiWriteXY d (word_of_int (sint x + sx + w' - 1))
                             (word_of_int (sint y + sy + h' - 1)) @
                spiWriteXY d (word_of_int (sint dx + sx)) (word_of_int (sint dy + sy)) @
                [SPI_DC_HIGH, endWrite, delayMicroseconds (word_of_int (drop_bit 2 (w' * h')))]
           else []) \<and>
        (0 < w' \<longrightarrow>
           0 \<le> sint x + sx \<and> sint x + sx + w' \<le> sint (gfx_width d) \<and>
           0 \<le> sint dx + sx \<and> sint dx + sx + w' \<le> sint (gfx_width d)) \<and>
        (0 < h' \<longrightarrow>
           0 \<le> sint y + sy \<and> sint y + sy + h' \<le> sint (gfx_height d) \<and>
           0 \<le> sint dy + sy \<and> sint dy + sy + h' \<le> sint (gfx_height d)) \<and>
        (0 < w' \<and> 0 < h' \<longrightarrow>
           on_screen d (word_of_int (sint x + sx)) (word_of_int (sint y + sy)) \<and>
           on_screen d (word_of_int (sint x + sx + w' - 1))
                       (word_of_int (sint y + sy + h' - 1)) \<and>
           on_screen d (word_of_int (sint dx + sx)) (word_of_int (sint dy + sy)) \<and>
           on_screen d (word_of_int (sint dx + sx + w' - 1))
                       (word_of_int (sint dy + sy + h' - 1)))"
proof -
  define sx where "sx = max 0 (- min (sint x) (sint dx))"
  define w' where
    "w' = sint w - sx - max 0 (max (sint x) (sint dx) + sint w - sint (gfx_width d))"
  define sy where "sy = max 0 (- min (sint y) (sint dy))"
  define h' where
    "h' = sint h - sy - max 0 (max (sint y) (sint dy) + sint h - sint (gfx_height d))"
  have cx: "copyBits_clip (gfx_width d) x dx w =
      (word_of_int (sint x + sx), word_of_int (sint dx + sx), word_of_int w')"
    unfolding sx_def w'_def by (rule copyBits_clip_exact)
  have cy: "copyBits_clip (gfx_height d) y dy h =
      (word_of_int (sint y + sy), word_of_int (sint dy + sy), word_of_int h')"
    unfolding sy_def h'_def by (rule copyBits_clip_exact)
  have "sint w \<le> 32767" using sint_lt [of w] by simp
  then have "w' \<le> 32767" unfolding w'_def sx_def by (rule copyBits_extent_upper)
  moreover have "- 32768 \<le> w'" unfolding w'_def sx_def by (rule assms(1))
  ultimately have sw: "sint (word_of_int w' :: 16 word) = w'"
    by (intro sint_of_int16)
  have "sint h \<le> 32767" using sint_lt [of h] by simp
  then have "h' \<le> 32767" unfolding h'_def sy_def by (rule copyBits_extent_upper)
  moreover have "- 32768 \<le> h'" unfolding h'_def sy_def by (rule assms(2))
  ultimately have sh: "sint (word_of_int h' :: 16 word) = h'"
    by (intro sint_of_int16)
  have trace: "copyBits d x y w h dx dy invert =
          (if 0 < w' \<and> 0 < h'
           then [startWrite, SPI_DC_LOW,
                 spiWrite (Op SSD1331_CMD_FILL), spiWrite (Raw (if invert then 0x10 else 0x00)),
                 spiWrite (Op SSD1331_CMD_COPY)] @
                spiWriteXY d (word_of_int (sint x + sx)) (word_of_int (sint y + sy)) @
                spiWriteXY d (word_of_int (sint x + sx + w' - 1))
                             (word_of_int (sint y + sy + h' - 1)) @
                spiWriteXY d (word_of_int (sint dx + sx)) (word_of_int (sint dy + sy)) @
                [SPI_DC_HIGH, endWrite, delayMicroseconds (word_of_int (drop_bit 2 (w' * h')))]
           else [])"
    by (simp add: copyBits_def cx cy sw sh)
  have inx: "0 \<le> sint x + sx \<and> sint x + sx + w' \<le> sint (gfx_width d) \<and>
           0 \<le> sint dx + sx \<and> sint dx + sx + w' \<le> sint (gfx_width d)" if "0 < w'"
    using that unfolding w'_def sx_def by (intro conjI copyBits_axis_bounds)
  have iny: "0 \<le> sint y + sy \<and> sint y + sy + h' \<le> sint (gfx_height d) \<and>
           0 \<le> sint dy + sy \<and> sint dy + sy + h' \<le> sint (gfx_height d)" if "0 < h'"
    using that unfolding h'_def sy_def by (intro conjI copyBits_axis_bounds)
  have ons: "on_screen d (word_of_int (sint x + sx)) (word_of_int (sint y + sy)) \<and>
           on_screen d (word_of_int (sint x + sx + w' - 1))
                       (word_of_int (sint y + sy + h' - 1)) \<and>
           on_screen d (word_of_int (sint dx + sx)) (word_of_int (sint dy + sy)) \<and>
           on_screen d (word_of_int (sint dx + sx + w' - 1))
                       (word_of_int (sint dy + sy + h' - 1))" if "0 < w'" "0 < h'"
    using inx [OF that(1)] iny [OF that(2)] that
    by (intro conjI on_screen_of_int) simp_all
  from trace inx iny ons show ?thesis
    unfolding Let_def sx_def [symmetric] w'_def [symmetric] sy_def [symmetric] h'_def [symmetric]
    by blast
qed

theorem copyBits_within_bounds_witness:
  "copyBits panel96x64 0 0 96 64 0 (- 8) False =
     [startWrite, SPI_DC_LOW, spiWrite (Op SSD1331_CMD_FILL), spiWrite (Raw 0),
      spiWrite (Op SSD1331_CMD_COPY), spiWrite (Raw 0), spiWrite (Raw 8),
      spiWrite (Raw 95), spiWrite (Raw 63), spiWrite (Raw 0), spiWrite (Raw 0),
      SPI_DC_HIGH, endWrite, delayMicroseconds 1344] \<and>
   bytes_of (copyBits panel96x64 0 0 32767 64 0 (- 8) False) =
     [Op SSD1331_CMD_FILL, Raw 0, Op SSD1331_CMD_COPY,
      Raw 0, Raw 8, Raw 95, Raw 63, Raw 0, Raw 0]"
  using copyBits_within_bounds [of 96 0 0 panel96x64 64 0 "- 8" False]
    copyBits_within_bounds [of 32767 0 0 panel96x64 64 0 "- 8" False]
  by (simp add: panel96x64_def spiWriteXY_def)

text \<open>
  Without the side condition the clipping can wrap: with \<open>x = 32767\<close> and
  \<open>dx = -32768\<close> the shift is 32768, \<^verbatim>\<open>x += clip\<close> stores \<open>-1\<close>, the extent
  \<open>10 - 32768 - 32681\<close> wraps to 97, and the frame addresses source column \<open>-1\<close> (sent as
  \<open>0xFF\<close>).
\<close>

theorem copyBits_within_bounds_counterexample:
  "copyBits_clip (gfx_width panel96x64) 32767 (- 32768) 10 = (- 1, 0, 97) \<and>
   sint (- 1 :: int16_t) < 0 \<and>
   bytes_of (copyBits panel96x64 32767 0 10 1 (- 32768) 0 False) =
     [Op SSD1331_CMD_FILL, Raw 0, Op SSD1331_CMD_COPY,
      Raw 255, Raw 0, Raw 95, Raw 0, Raw 0, Raw 0]"
  by (simp add: copyBits_def copyBits_clip_def panel96x64_def spiWriteXY_def)

end
